theory Spec2Isabelle
  imports Complex_Main "HOL-Library.AList"
begin

section \<open>Data model (models.py)\<close>

text \<open>
  A naive \<^verbatim>\<open>datetime\<close> has microsecond resolution and a total order; it is modelled
  as the number of microseconds since a fixed origin. The columns \<^verbatim>\<open>created_at\<close> and
  \<^verbatim>\<open>allocated_at\<close> are filled from the clock and read by none of the operations below;
  they are left out of the rows.

  A table with an integer primary key is a map from the key to the row, so
  \<^verbatim>\<open>Event.query.get(k)\<close> is \<open>events s k\<close>. The allocation table is the list of its rows
  in insertion order.
\<close>

type_synonym datetime = int

record event =
  title :: string
  start_time :: datetime
  end_time :: datetime
  description :: string

record resource =
  resource_name :: string
  resource_type :: string

record allocation =
  allocation_id :: int
  event_id :: int
  resource_id :: int

record db =
  events :: "int \<rightharpoonup> event"
  resources :: "int \<rightharpoonup> resource"
  allocations :: "allocation list"

section \<open>Conflict detection (utils/conflict.py)\<close>

text \<open>
  The entries of the list returned by \<^verbatim>\<open>check_resource_conflict\<close>: either the
  dictionary \<^verbatim>\<open>{"error": msg}\<close> or the dictionary with the five keys of a conflicting
  event. \<^verbatim>\<open>isoformat()\<close> renders an instant one-to-one, so the record keeps the instant.
\<close>

datatype conflict_detail =
  ErrorDetail string
| ConflictDetail int string datetime datetime int

text \<open>Python truthiness of an optional integer: \<^verbatim>\<open>None\<close> and \<^verbatim>\<open>0\<close> are falsy.\<close>

definition truthy :: "int option \<Rightarrow> bool" where
  "truthy x = (case x of None \<Rightarrow> False | Some n \<Rightarrow> n \<noteq> 0)"

text \<open>
  The two time conditions of the query's filter, as the comment above the query names them:
  \<^verbatim>\<open>A_start < B_end AND A_end > B_start\<close>.
\<close>

definition overlaps :: "datetime \<Rightarrow> datetime \<Rightarrow> datetime \<Rightarrow> datetime \<Rightarrow> bool" where
  "overlaps a_start a_end b_start b_end = (a_start < b_end \<and> a_end > b_start)"

text \<open>
  The query: the join of \<^verbatim>\<open>Event\<close> and \<^verbatim>\<open>EventResourceAllocation\<close> on the event id,
  filtered by resource id and by the two time conditions, and by
  \<^verbatim>\<open>Event.event_id != exclude_event_id\<close> when \<^verbatim>\<open>exclude_event_id\<close> is truthy.
  An allocation row whose event does not resolve joins with nothing. A result row is the
  event's key, the event and the allocation.
\<close>

definition conflict_row ::
  "db \<Rightarrow> int \<Rightarrow> datetime \<Rightarrow> datetime \<Rightarrow> int option \<Rightarrow> allocation \<Rightarrow> (int \<times> event \<times> allocation) option" where
  "conflict_row s rid st en exclude_event_id a =
     (case events s (event_id a) of
        None \<Rightarrow> None
      | Some ev \<Rightarrow>
          if resource_id a = rid
             \<and> overlaps (start_time ev) (end_time ev) st en
             \<and> (truthy exclude_event_id \<longrightarrow> Some (event_id a) \<noteq> exclude_event_id)
          then Some (event_id a, ev, a) else None)"

definition conflict_query ::
  "db \<Rightarrow> int \<Rightarrow> datetime \<Rightarrow> datetime \<Rightarrow> int option \<Rightarrow> (int \<times> event \<times> allocation) list" where
  "conflict_query s rid st en exclude_event_id =
     List.map_filter (conflict_row s rid st en exclude_event_id) (allocations s)"

definition conflict_details :: "int \<Rightarrow> (int \<times> event \<times> allocation) \<Rightarrow> conflict_detail" where
  "conflict_details rid row =
     (case row of (eid, ev, a) \<Rightarrow> ConflictDetail eid (title ev) (start_time ev) (end_time ev) rid)"

definition check_resource_conflict ::
  "db \<Rightarrow> int \<Rightarrow> datetime \<Rightarrow> datetime \<Rightarrow> int option \<Rightarrow> bool \<times> conflict_detail list" where
  "check_resource_conflict s rid st en exclude_event_id =
     (if st \<ge> en then (False, [ErrorDetail ''Start time must be before end time''])
      else
        let conflicts = conflict_query s rid st en exclude_event_id in
        if length conflicts = 0 then (True, [])
        else (False, map (conflict_details rid) conflicts))"

text \<open>
  \<^verbatim>\<open>check_multiple_resources_conflict\<close> fills a dictionary in the order of the list; a
  repeated key keeps its first position and takes the last value, which is what
  \<open>AList.update\<close> does on an association list.
\<close>

definition check_multiple_resources_conflict ::
  "db \<Rightarrow> int list \<Rightarrow> datetime \<Rightarrow> datetime \<Rightarrow> int option \<Rightarrow> (int \<times> bool \<times> conflict_detail list) list" where
  "check_multiple_resources_conflict s resource_ids st en exclude_event_id =
     fold (\<lambda>rid results.
             AList.update rid (check_resource_conflict s rid st en exclude_event_id) results)
          resource_ids []"

text \<open>
  \<^verbatim>\<open>validate_event_time\<close>. The source computes
  \<^verbatim>\<open>(end_time - start_time).total_seconds() / 3600\<close> and compares it with 24. The
  difference is a whole number of microseconds; the quotient is taken here in the
  rationals. The source's double-precision quotient is above 24 exactly when the rational
  one is: 24 hours give exactly \<open>86400.0\<close> and \<open>24.0\<close>, rounding is monotone, and one
  microsecond more is a relative excess of about \<open>10\<^sup>-\<^sup>1\<^sup>1\<close>, far above the rounding error.
\<close>

definition total_seconds :: "int \<Rightarrow> rat" where
  "total_seconds delta = of_int delta / 1000000"

definition validate_event_time :: "datetime \<Rightarrow> datetime \<Rightarrow> bool \<times> string option" where
  "validate_event_time st en =
     (if st \<ge> en then (False, Some ''Start time must be before end time'')
      else
        let duration = total_seconds (en - st) / 3600 in
        if duration > 24 then (False, Some ''Event duration cannot exceed 24 hours'')
        else (True, None))"

section \<open>Allocation routes (routes/allocations.py)\<close>

text \<open>
  The failure responses of the two POST handlers: 400 for a missing field, 404 for an
  event or resource that does not resolve, 409 "This resource is already allocated to this
  event", 409 "Resource conflict detected" with the conflict list, and 409 "One or more
  resources have conflicts" with the dictionary from resource id to conflict list. A
  success is the right summand.
\<close>

datatype error =
  MissingFields
| EventNotFound int
| ResourceNotFound int
| AlreadyAllocated
| ConflictDetected "conflict_detail list"
| BatchConflictDetected "(int \<times> conflict_detail list) list"

text \<open>\<^verbatim>\<open>EventResourceAllocation.query.filter_by(event_id=..., resource_id=...).first()\<close>\<close>

definition existing_allocation :: "db \<Rightarrow> int \<Rightarrow> int \<Rightarrow> allocation option" where
  "existing_allocation s eid rid =
     find (\<lambda>a. event_id a = eid \<and> resource_id a = rid) (allocations s)"

text \<open>
  The database assigns the primary key of a new row: one more than the largest key in
  the table, 1 in an empty table.
\<close>

definition next_allocation_id :: "db \<Rightarrow> int" where
  "next_allocation_id s = fold max (map allocation_id (allocations s)) 0 + 1"

definition add_allocation :: "db \<Rightarrow> int \<Rightarrow> int \<Rightarrow> db \<times> allocation" where
  "add_allocation s eid rid =
     (let new_allocation =
            \<lparr>allocation_id = next_allocation_id s, event_id = eid, resource_id = rid\<rparr>
      in (s\<lparr>allocations := allocations s @ [new_allocation]\<rparr>, new_allocation))"

text \<open>
  \<^verbatim>\<open>create_allocation\<close>. The two arguments are the values of the keys \<^verbatim>\<open>event_id\<close> and
  \<^verbatim>\<open>resource_id\<close> of the request body, \<open>None\<close> for an absent key; a falsy value
  (absent or 0) is answered with 400. Every failure returns the state it was given.
\<close>

fun create_allocation :: "db \<Rightarrow> int option \<Rightarrow> int option \<Rightarrow> db \<times> (error + allocation)" where
  "create_allocation s (Some eid) (Some rid) =
     (if eid = 0 \<or> rid = 0 then (s, Inl MissingFields)
      else case events s eid of
        None \<Rightarrow> (s, Inl (EventNotFound eid))
      | Some event \<Rightarrow>
         (case resources s rid of
            None \<Rightarrow> (s, Inl (ResourceNotFound rid))
          | Some resource \<Rightarrow>
             (case existing_allocation s eid rid of
                Some existing \<Rightarrow> (s, Inl AlreadyAllocated)
              | None \<Rightarrow>
                 (case check_resource_conflict s rid (start_time event) (end_time event) None of
                    (is_available, conflicts) \<Rightarrow>
                      if \<not> is_available then (s, Inl (ConflictDetected conflicts))
                      else (case add_allocation s eid rid of
                              (s', new_allocation) \<Rightarrow> (s', Inr new_allocation))))))"
| "create_allocation s _ _ = (s, Inl MissingFields)"

text \<open>
  \<^verbatim>\<open>create_batch_allocations\<close>. The dictionary \<^verbatim>\<open>conflicts_found\<close> collects the
  conflict lists of the resources that are not available, in the order of
  \<^verbatim>\<open>conflict_results\<close>.
\<close>

definition conflicts_found_of ::
  "(int \<times> bool \<times> conflict_detail list) list \<Rightarrow> (int \<times> conflict_detail list) list" where
  "conflicts_found_of conflict_results =
     fold (\<lambda>(res_id, is_available, conflicts) found.
             if \<not> is_available then AList.update res_id conflicts found else found)
          conflict_results []"

text \<open>
  One round of the allocation loop. The session flushes a pending row before the next
  query runs, so the look-up for an existing allocation sees the rows added earlier in the
  same loop; a resource id that occurs twice in the request is allocated once.
\<close>

definition allocate_step :: "int \<Rightarrow> int \<Rightarrow> db \<times> int list \<Rightarrow> db \<times> int list" where
  "allocate_step eid rid acc =
     (case acc of (s, allocated) \<Rightarrow>
        (case existing_allocation s eid rid of
           Some existing \<Rightarrow> (s, allocated)
         | None \<Rightarrow> (fst (add_allocation s eid rid), allocated @ [rid])))"

text \<open>
  The resource ids of a batch are not looked up in the resource table, and the default
  SQLite database does not enforce the foreign key; the loop adds a row for an id that
  names no resource as for any other.
\<close>

fun create_batch_allocations ::
  "db \<Rightarrow> int option \<Rightarrow> int list option \<Rightarrow> db \<times> (error + int list)" where
  "create_batch_allocations s (Some eid) (Some resource_ids) =
     (if eid = 0 \<or> resource_ids = [] then (s, Inl MissingFields)
      else case events s eid of
        None \<Rightarrow> (s, Inl (EventNotFound eid))
      | Some event \<Rightarrow>
         (let conflict_results =
                check_multiple_resources_conflict s resource_ids
                  (start_time event) (end_time event) None;
              conflicts_found = conflicts_found_of conflict_results
          in if conflicts_found \<noteq> [] then (s, Inl (BatchConflictDetected conflicts_found))
             else (case fold (allocate_step eid) resource_ids (s, []) of
                     (s', allocated) \<Rightarrow> (s', Inr allocated))))"
| "create_batch_allocations s _ _ = (s, Inl MissingFields)"

section \<open>Sequences of calls and the booking invariant\<close>

datatype call =
  Allocate "int option" "int option"
| AllocateBatch "int option" "int list option"

text \<open>The state after a call that succeeds; \<open>None\<close> when the call fails.\<close>

fun run_call :: "db \<Rightarrow> call \<Rightarrow> db option" where
  "run_call s (Allocate e r) =
     (case create_allocation s e r of (s', Inr a) \<Rightarrow> Some s' | (s', Inl err) \<Rightarrow> None)"
| "run_call s (AllocateBatch e rs) =
     (case create_batch_allocations s e rs of (s', Inr ids) \<Rightarrow> Some s' | (s', Inl err) \<Rightarrow> None)"

fun run_calls :: "db \<Rightarrow> call list \<Rightarrow> db option" where
  "run_calls s [] = Some s"
| "run_calls s (c # cs) = (case run_call s c of None \<Rightarrow> None | Some s' \<Rightarrow> run_calls s' cs)"

text \<open>
  No double booking: two allocation rows for the same resource that belong to different
  events, both of which resolve, have events whose time ranges do not overlap.
\<close>

definition no_double_booking :: "db \<Rightarrow> bool" where
  "no_double_booking s =
     (\<forall>a1\<in>set (allocations s). \<forall>a2\<in>set (allocations s).
        resource_id a1 = resource_id a2 \<and> event_id a1 \<noteq> event_id a2 \<longrightarrow>
          (case (events s (event_id a1), events s (event_id a2)) of
             (Some e1, Some e2) \<Rightarrow>
               \<not> overlaps (start_time e1) (end_time e1) (start_time e2) (end_time e2)
           | _ \<Rightarrow> True))"

section \<open>Example data\<close>

text \<open>
  A small scenario: a room holds event A (10:00 to 12:00); B (11:00 to 13:00)
  overlaps A, C (12:00 to 13:00) follows A; D (09:00 to 09:30) overlaps E (08:00 to 09:15),
  which holds the second resource.
\<close>

definition hm :: "int \<Rightarrow> int \<Rightarrow> datetime" where
  "hm h m = (h * 60 + m) * 60000000"

definition mk_event :: "string \<Rightarrow> datetime \<Rightarrow> datetime \<Rightarrow> event" where
  "mk_event t st en = \<lparr>title = t, start_time = st, end_time = en, description = []\<rparr>"

definition example_events :: "int \<rightharpoonup> event" where
  "example_events =
     [1 \<mapsto> mk_event ''A'' (hm 10 0) (hm 12 0),
      2 \<mapsto> mk_event ''B'' (hm 11 0) (hm 13 0),
      3 \<mapsto> mk_event ''C'' (hm 12 0) (hm 13 0),
      4 \<mapsto> mk_event ''D'' (hm 9 0) (hm 9 30),
      5 \<mapsto> mk_event ''E'' (hm 8 0) (hm 9 15)]"

definition example_resources :: "int \<rightharpoonup> resource" where
  "example_resources =
     [1 \<mapsto> \<lparr>resource_name = ''Room A1'', resource_type = ''room''\<rparr>,
      2 \<mapsto> \<lparr>resource_name = ''Projector'', resource_type = ''equipment''\<rparr>]"

definition example_db :: db where
  "example_db =
     \<lparr>events = example_events, resources = example_resources,
      allocations = [\<lparr>allocation_id = 1, event_id = 1, resource_id = 1\<rparr>,
                     \<lparr>allocation_id = 2, event_id = 5, resource_id = 2\<rparr>]\<rparr>"

text \<open>A database in which the event with key 0 holds the room.\<close>

definition zero_db :: db where
  "zero_db =
     \<lparr>events = [0 \<mapsto> mk_event ''Z'' (hm 10 0) (hm 12 0)], resources = example_resources,
      allocations = [\<lparr>allocation_id = 1, event_id = 0, resource_id = 1\<rparr>]\<rparr>"

text \<open>The example database after event C (key 3) has been allocated the room.\<close>

definition example_db_after :: db where
  "example_db_after =
     example_db\<lparr>allocations :=
       allocations example_db @ [\<lparr>allocation_id = 3, event_id = 3, resource_id = 1\<rparr>]\<rparr>"

text \<open>
  The example database after C has been allocated the room and then B (key 2) the
  projector.
\<close>

definition example_db_final :: db where
  "example_db_final =
     example_db\<lparr>allocations :=
       allocations example_db @ [\<lparr>allocation_id = 3, event_id = 3, resource_id = 1\<rparr>,
                                 \<lparr>allocation_id = 4, event_id = 2, resource_id = 2\<rparr>]\<rparr>"

section \<open>Predicates used to state the properties\<close>

text \<open>
  The conflict list of a check holds the record of the event with key \<open>eid\<close> and row
  \<open>ev\<close>.
\<close>

definition conflict_reported ::
  "db \<Rightarrow> int \<Rightarrow> datetime \<Rightarrow> datetime \<Rightarrow> int option \<Rightarrow> int \<Rightarrow> event \<Rightarrow> bool" where
  "conflict_reported s rid st en ex eid ev =
     (ConflictDetail eid (title ev) (start_time ev) (end_time ev) rid
        \<in> set (snd (check_resource_conflict s rid st en ex)))"

text \<open>
  No allocation row for resource \<open>rid\<close> that belongs to an event other than \<open>eid\<close>
  has an event that overlaps the range \<open>[st, en)\<close>.
\<close>

definition no_other_overlap :: "db \<Rightarrow> int \<Rightarrow> int \<Rightarrow> datetime \<Rightarrow> datetime \<Rightarrow> bool" where
  "no_other_overlap s eid rid st en =
     (\<forall>a\<in>set (allocations s).
        resource_id a = rid \<and> event_id a \<noteq> eid \<longrightarrow>
          (case events s (event_id a) of
             Some e \<Rightarrow> \<not> overlaps (start_time e) (end_time e) st en
           | None \<Rightarrow> True))"

section \<open>Properties of the overlap test and the validator\<close>

lemma set_map_filter_conv:
  "set (List.map_filter f xs) = {y. \<exists>x\<in>set xs. f x = Some y}"
  by (induction xs) (auto split: option.splits)

lemma map_filter_empty_conv:
  "(List.map_filter f xs = []) = (\<forall>x\<in>set xs. f x = None)"
  by (induction xs) (auto split: option.splits)

lemma conflict_row_Some:
  "(conflict_row s rid st en ex a = Some row) =
     (\<exists>ev. events s (event_id a) = Some ev \<and> resource_id a = rid
        \<and> overlaps (start_time ev) (end_time ev) st en
        \<and> (truthy ex \<longrightarrow> Some (event_id a) \<noteq> ex)
        \<and> row = (event_id a, ev, a))"
  by (auto simp: conflict_row_def split: option.splits)

lemma conflict_query_set:
  "set (conflict_query s rid st en ex) =
     {(event_id a, ev, a) | a ev.
        a \<in> set (allocations s) \<and> events s (event_id a) = Some ev \<and> resource_id a = rid
        \<and> overlaps (start_time ev) (end_time ev) st en
        \<and> (truthy ex \<longrightarrow> Some (event_id a) \<noteq> ex)}"
  by (auto simp: conflict_query_def set_map_filter_conv conflict_row_Some)

lemma check_resource_conflict_available:
  "st < en \<Longrightarrow>
   fst (check_resource_conflict s rid st en ex) = (conflict_query s rid st en ex = [])"
  by (simp add: check_resource_conflict_def Let_def)

lemma check_resource_conflict_details:
  "st < en \<Longrightarrow>
   snd (check_resource_conflict s rid st en ex) =
     map (conflict_details rid) (conflict_query s rid st en ex)"
  by (simp add: check_resource_conflict_def Let_def)

text \<open>
  C9. The overlap predicate is symmetric in its two ranges, and it is false whenever the
  first range ends where the second one starts.
\<close>

theorem overlaps_symmetric_adjacent:
  "overlaps a_start a_end b_start b_end = overlaps b_start b_end a_start a_end
   \<and> (a_end = b_start \<longrightarrow> \<not> overlaps a_start a_end b_start b_end)"
  by (auto simp: overlaps_def)

theorem overlaps_symmetric_adjacent_witness:
  "overlaps 10 12 11 13 = overlaps 11 13 10 12 \<and> overlaps 10 12 11 13
   \<and> (12::int) = 12 \<and> \<not> overlaps 10 12 12 13"
  using overlaps_symmetric_adjacent [of 10 12 11 13]
        overlaps_symmetric_adjacent [of 10 12 12 13]
  by (simp add: overlaps_def)

text \<open>
  C5. \<^verbatim>\<open>validate_event_time\<close> rejects every pair with \<open>start \<ge> end\<close> with the
  invalid-range message, rejects every pair with \<open>start < end\<close> that is more than 24 hours
  (86400000000 microseconds) apart with the duration message, and accepts every other
  pair. It takes the two instants only and returns the verdict only: it reads no table and
  changes none.
\<close>

theorem validate_event_time_cases:
  "(st \<ge> en \<longrightarrow>
      validate_event_time st en = (False, Some ''Start time must be before end time''))
   \<and> (st < en \<and> en - st > 24 * 3600 * 1000000 \<longrightarrow>
      validate_event_time st en = (False, Some ''Event duration cannot exceed 24 hours''))
   \<and> (st < en \<and> en - st \<le> 24 * 3600 * 1000000 \<longrightarrow>
      validate_event_time st en = (True, None))"
proof -
  have "(total_seconds (en - st) / 3600 > 24) = (en - st > 24 * 3600 * 1000000)"
  proof -
    have "(total_seconds (en - st) / 3600 > 24) = (of_int (en - st) > (86400000000 :: rat))"
      by (simp add: total_seconds_def field_simps)
    also have "\<dots> = (of_int (en - st) > (of_int 86400000000 :: rat))"
      by simp
    also have "\<dots> = (en - st > 86400000000)"
      by (simp only: of_int_less_iff)
    finally show ?thesis by simp
  qed
  then show ?thesis
    by (auto simp: validate_event_time_def Let_def)
qed

theorem validate_event_time_cases_witness:
  "(36000000000::int) \<ge> 36000000000
   \<and> validate_event_time 36000000000 36000000000
       = (False, Some ''Start time must be before end time'')
   \<and> (36000000000::int) \<ge> 35940000000
   \<and> validate_event_time 36000000000 35940000000
       = (False, Some ''Start time must be before end time'')
   \<and> (36000000000::int) < 122460000000
   \<and> (122460000000::int) - 36000000000 > 24 * 3600 * 1000000
   \<and> validate_event_time 36000000000 122460000000
       = (False, Some ''Event duration cannot exceed 24 hours'')
   \<and> (36000000000::int) < 39600000000
   \<and> (39600000000::int) - 36000000000 \<le> 24 * 3600 * 1000000
   \<and> validate_event_time 36000000000 39600000000 = (True, None)"
  using validate_event_time_cases [where st = 36000000000 and en = 36000000000]
        validate_event_time_cases [where st = 36000000000 and en = 35940000000]
        validate_event_time_cases [where st = 36000000000 and en = 122460000000]
        validate_event_time_cases [where st = 36000000000 and en = 39600000000]
  by simp

section \<open>Properties of the conflict checker\<close>

text \<open>
  C8. When \<open>start \<ge> end\<close>, \<^verbatim>\<open>check_resource_conflict\<close> answers "not available" with
  the single record \<^verbatim>\<open>{"error": "Start time must be before end time"}\<close>, and the answer
  is the same in every database state: the tables are not consulted.
\<close>

theorem check_resource_conflict_invalid_range:
  "st \<ge> en \<Longrightarrow>
   check_resource_conflict s rid st en ex
     = (False, [ErrorDetail ''Start time must be before end time''])
   \<and> (\<forall>s'. check_resource_conflict s' rid st en ex = check_resource_conflict s rid st en ex)"
  by (simp add: check_resource_conflict_def)

theorem check_resource_conflict_invalid_range_witness:
  "hm 10 0 \<ge> hm 9 59
   \<and> check_resource_conflict example_db 1 (hm 10 0) (hm 9 59) None
       = (False, [ErrorDetail ''Start time must be before end time''])
   \<and> check_resource_conflict zero_db 1 (hm 10 0) (hm 9 59) None
       = check_resource_conflict example_db 1 (hm 10 0) (hm 9 59) None"
proof -
  have h: "hm 10 0 \<ge> hm 9 59"
    by (simp add: hm_def)
  from check_resource_conflict_invalid_range [OF h, of example_db 1 None] h
  show ?thesis by blast
qed

text \<open>
  C10. Passing \<^verbatim>\<open>exclude_event_id = 0\<close> gives the same result as passing \<^verbatim>\<open>None\<close>,
  on every input; so an event with id 0 that holds an overlapping allocation to the
  resource is reported although its id was passed as the exclusion.
\<close>

theorem check_resource_conflict_exclude_zero:
  "check_resource_conflict s rid st en (Some 0) = check_resource_conflict s rid st en None
   \<and> (st < en \<and> a \<in> set (allocations s) \<and> event_id a = 0 \<and> resource_id a = rid
        \<and> events s 0 = Some ev \<and> overlaps (start_time ev) (end_time ev) st en
      \<longrightarrow> ConflictDetail 0 (title ev) (start_time ev) (end_time ev) rid
            \<in> set (snd (check_resource_conflict s rid st en (Some 0))))"
proof -
  have row: "conflict_row s rid st en (Some 0) = conflict_row s rid st en None"
    by (rule ext) (simp add: conflict_row_def truthy_def split: option.splits)
  have eq: "check_resource_conflict s rid st en (Some 0)
              = check_resource_conflict s rid st en None"
    by (simp add: check_resource_conflict_def conflict_query_def row)
  have "ConflictDetail 0 (title ev) (start_time ev) (end_time ev) rid
          \<in> set (snd (check_resource_conflict s rid st en (Some 0)))"
    if "st < en" "a \<in> set (allocations s)" "event_id a = 0" "resource_id a = rid"
       "events s 0 = Some ev" "overlaps (start_time ev) (end_time ev) st en"
  proof -
    have "(0, ev, a) \<in> set (conflict_query s rid st en (Some 0))"
      using that by (auto simp: conflict_query_set truthy_def)
    then have "conflict_details rid (0, ev, a)
                 \<in> set (map (conflict_details rid) (conflict_query s rid st en (Some 0)))"
      by (simp only: set_map) (rule imageI)
    then show ?thesis
      using that(1) by (simp add: check_resource_conflict_details conflict_details_def)
  qed
  with eq show ?thesis by blast
qed

theorem check_resource_conflict_exclude_zero_witness:
  "check_resource_conflict zero_db 1 (hm 11 0) (hm 13 0) (Some 0)
     = check_resource_conflict zero_db 1 (hm 11 0) (hm 13 0) None
   \<and> hm 11 0 < hm 13 0
   \<and> \<lparr>allocation_id = 1, event_id = 0, resource_id = 1\<rparr> \<in> set (allocations zero_db)
   \<and> events zero_db 0 = Some (mk_event ''Z'' (hm 10 0) (hm 12 0))
   \<and> overlaps (hm 10 0) (hm 12 0) (hm 11 0) (hm 13 0)
   \<and> ConflictDetail 0 ''Z'' (hm 10 0) (hm 12 0) 1
        \<in> set (snd (check_resource_conflict zero_db 1 (hm 11 0) (hm 13 0) (Some 0)))"
proof -
  let ?a = "\<lparr>allocation_id = 1, event_id = 0, resource_id = 1\<rparr>"
  let ?ev = "mk_event ''Z'' (hm 10 0) (hm 12 0)"
  have h: "hm 11 0 < hm 13 0" "?a \<in> set (allocations zero_db)"
    "event_id ?a = 0" "resource_id ?a = 1" "events zero_db 0 = Some ?ev"
    "overlaps (start_time ?ev) (end_time ?ev) (hm 11 0) (hm 13 0)"
    "title ?ev = ''Z''" "start_time ?ev = hm 10 0" "end_time ?ev = hm 12 0"
    by (simp_all add: zero_db_def mk_event_def hm_def overlaps_def)
  note inst = check_resource_conflict_exclude_zero
         [where s = zero_db and rid = 1 and st = "hm 11 0" and en = "hm 13 0"
            and a = ?a and ev = ?ev]
  have eq: "check_resource_conflict zero_db 1 (hm 11 0) (hm 13 0) (Some 0)
              = check_resource_conflict zero_db 1 (hm 11 0) (hm 13 0) None"
    using inst by (rule conjunct1)
  have "ConflictDetail 0 (title ?ev) (start_time ?ev) (end_time ?ev) 1
          \<in> set (snd (check_resource_conflict zero_db 1 (hm 11 0) (hm 13 0) (Some 0)))"
    using h(1-6) by (intro mp [OF conjunct2 [OF inst]] conjI)
  then have mem: "ConflictDetail 0 ''Z'' (hm 10 0) (hm 12 0) 1
          \<in> set (snd (check_resource_conflict zero_db 1 (hm 11 0) (hm 13 0) (Some 0)))"
    by (simp only: h(7-9))
  have ov: "overlaps (hm 10 0) (hm 12 0) (hm 11 0) (hm 13 0)"
    using h(6) by (simp only: h(8,9))
  from eq h(1,2,5) ov mem show ?thesis
    by (intro conjI)
qed

lemma conflict_details_set:
  "st < en \<Longrightarrow>
   set (snd (check_resource_conflict s rid st en ex)) =
     {ConflictDetail (event_id a) (title ev) (start_time ev) (end_time ev) rid | a ev.
        a \<in> set (allocations s) \<and> events s (event_id a) = Some ev \<and> resource_id a = rid
        \<and> overlaps (start_time ev) (end_time ev) st en
        \<and> (truthy ex \<longrightarrow> Some (event_id a) \<noteq> ex)}"
proof -
  assume "st < en"
  then have "set (snd (check_resource_conflict s rid st en ex))
               = conflict_details rid ` set (conflict_query s rid st en ex)"
    by (simp add: check_resource_conflict_details)
  also have "\<dots> = {ConflictDetail (event_id a) (title ev) (start_time ev) (end_time ev) rid
       | a ev. a \<in> set (allocations s) \<and> events s (event_id a) = Some ev \<and> resource_id a = rid
        \<and> overlaps (start_time ev) (end_time ev) st en
        \<and> (truthy ex \<longrightarrow> Some (event_id a) \<noteq> ex)}"
    unfolding conflict_query_set
    by (auto simp: conflict_details_def image_iff) blast+
  finally show ?thesis .
qed

lemma conflict_reported_iff:
  assumes "st < en" and "events s eid = Some ev"
  shows "conflict_reported s rid st en ex eid ev =
     ((\<exists>a\<in>set (allocations s). event_id a = eid \<and> resource_id a = rid)
        \<and> overlaps (start_time ev) (end_time ev) st en
        \<and> (truthy ex \<longrightarrow> Some eid \<noteq> ex))"
  unfolding conflict_reported_def conflict_details_set [OF assms(1)]
  using assms(2) by auto

text \<open>
  C4. For an event that holds an allocation to the resource, the conflict query reports
  it against the range \<open>[st, en)\<close> exactly when the event starts before \<open>en\<close> and ends
  after \<open>st\<close>. So an event that ends at \<open>st\<close> or starts at \<open>en\<close> is not reported, and
  an event with the same range, one that contains the range or lies within it, and one
  that overlaps it on either side, is reported.
\<close>

theorem conflict_query_overlap_test:
  assumes "a \<in> set (allocations s)" and "events s (event_id a) = Some ev" and "st < en"
  shows "(conflict_reported s (resource_id a) st en None (event_id a) ev
            = (start_time ev < en \<and> end_time ev > st))
       \<and> (end_time ev = st \<or> en = start_time ev
            \<longrightarrow> \<not> conflict_reported s (resource_id a) st en None (event_id a) ev)
       \<and> (start_time ev < end_time ev \<and> start_time ev = st \<and> end_time ev = en
            \<longrightarrow> conflict_reported s (resource_id a) st en None (event_id a) ev)
       \<and> (start_time ev < end_time ev \<and> st \<le> start_time ev \<and> end_time ev \<le> en
            \<longrightarrow> conflict_reported s (resource_id a) st en None (event_id a) ev)
       \<and> (start_time ev \<le> st \<and> en \<le> end_time ev
            \<longrightarrow> conflict_reported s (resource_id a) st en None (event_id a) ev)
       \<and> (start_time ev < st \<and> st < end_time ev \<and> end_time ev < en
            \<longrightarrow> conflict_reported s (resource_id a) st en None (event_id a) ev)
       \<and> (st < start_time ev \<and> start_time ev < en \<and> en < end_time ev
            \<longrightarrow> conflict_reported s (resource_id a) st en None (event_id a) ev)"
proof -
  have iff: "conflict_reported s (resource_id a) st en None (event_id a) ev
               = (start_time ev < en \<and> end_time ev > st)"
    using assms
    by (auto simp: conflict_reported_iff overlaps_def truthy_def)
  show ?thesis
    unfolding iff using assms(3) by auto
qed

theorem conflict_query_overlap_test_witness:
  "\<lparr>allocation_id = 1, event_id = 1, resource_id = 1\<rparr> \<in> set (allocations example_db)
   \<and> events example_db 1 = Some (mk_event ''A'' (hm 10 0) (hm 12 0))
   \<and> hm 11 0 < hm 13 0 \<and> hm 12 0 < hm 13 0
   \<and> conflict_reported example_db 1 (hm 11 0) (hm 13 0) None 1
        (mk_event ''A'' (hm 10 0) (hm 12 0))
   \<and> \<not> conflict_reported example_db 1 (hm 12 0) (hm 13 0) None 1
        (mk_event ''A'' (hm 10 0) (hm 12 0))"
proof -
  let ?a = "\<lparr>allocation_id = 1, event_id = 1, resource_id = 1\<rparr>"
  let ?ev = "mk_event ''A'' (hm 10 0) (hm 12 0)"
  have h: "?a \<in> set (allocations example_db)" "events example_db (event_id ?a) = Some ?ev"
    "hm 11 0 < hm 13 0" "hm 12 0 < hm 13 0"
    by (simp_all add: example_db_def example_events_def hm_def)
  have t: "start_time ?ev = hm 10 0" "end_time ?ev = hm 12 0" "hm 10 0 < hm 13 0"
    "hm 11 0 < hm 12 0" "event_id ?a = 1" "resource_id ?a = 1"
    by (simp_all add: mk_event_def hm_def)
  from conflict_query_overlap_test [OF h(1,2,3)] conflict_query_overlap_test [OF h(1,2,4)]
  show ?thesis using h t by simp
qed

lemma check_resource_conflict_distinct:
  assumes "st < en"
    and "distinct (map (\<lambda>a. (event_id a, resource_id a)) (allocations s))"
  shows "distinct (snd (check_resource_conflict s rid st en ex))"
proof -
  let ?f = "conflict_row s rid st en ex"
  let ?xs = "filter (\<lambda>a. ?f a \<noteq> None) (allocations s)"
  have inj: "inj_on (\<lambda>a. (event_id a, resource_id a)) (set (allocations s))"
    and d: "distinct (allocations s)"
    using assms(2) by (simp_all add: distinct_map)
  have "snd (check_resource_conflict s rid st en ex)
          = map (conflict_details rid \<circ> (the \<circ> ?f)) ?xs"
    using assms(1)
    by (simp add: check_resource_conflict_details conflict_query_def List.map_filter_def)
  moreover have "inj_on (conflict_details rid \<circ> (the \<circ> ?f)) (set ?xs)"
  proof (rule inj_onI)
    fix a b
    assume a: "a \<in> set ?xs" and b: "b \<in> set ?xs"
      and eq: "(conflict_details rid \<circ> (the \<circ> ?f)) a = (conflict_details rid \<circ> (the \<circ> ?f)) b"
    from a obtain ra where ra: "?f a = Some ra" by auto
    from b obtain rb where rb: "?f b = Some rb" by auto
    from eq have eq': "conflict_details rid ra = conflict_details rid rb"
      by (simp add: ra rb)
    from ra obtain eva where ra': "ra = (event_id a, eva, a)" "resource_id a = rid"
      unfolding conflict_row_Some by blast
    from rb obtain evb where rb': "rb = (event_id b, evb, b)" "resource_id b = rid"
      unfolding conflict_row_Some by blast
    from eq' ra' rb' have "event_id a = event_id b" "resource_id a = resource_id b"
      by (simp_all add: conflict_details_def)
    with inj a b show "a = b"
      by (auto dest: inj_onD)
  qed
  ultimately show ?thesis
    using d by (simp add: distinct_map)
qed

text \<open>
  What the checker guarantees. For \<open>start < end\<close>, and for an exclusion that is absent,
  non-zero, or 0 in a database with no event of key 0, \<^verbatim>\<open>check_resource_conflict\<close>
  answers "available" exactly when no event that holds an allocation to the resource,
  other than the excluded one, overlaps the range; the conflict list holds the record (id,
  title, start, end, resource id) of each such overlapping event and nothing else, and
  under the unique constraint on (event, resource) it holds each record once. The function
  takes the database and returns the verdict only, so it changes nothing.
\<close>

lemma check_resource_conflict_truthy_exclusion:
  assumes "st < en" and "ex = Some 0 \<longrightarrow> events s 0 = None"
  shows "fst (check_resource_conflict s rid st en ex)
           = (\<forall>a\<in>set (allocations s). \<forall>ev.
                resource_id a = rid \<and> Some (event_id a) \<noteq> ex
                \<and> events s (event_id a) = Some ev
                \<longrightarrow> \<not> overlaps (start_time ev) (end_time ev) st en)
       \<and> set (snd (check_resource_conflict s rid st en ex))
           = {ConflictDetail (event_id a) (title ev) (start_time ev) (end_time ev) rid | a ev.
                a \<in> set (allocations s) \<and> resource_id a = rid \<and> Some (event_id a) \<noteq> ex
                \<and> events s (event_id a) = Some ev
                \<and> overlaps (start_time ev) (end_time ev) st en}
       \<and> (distinct (map (\<lambda>a. (event_id a, resource_id a)) (allocations s))
            \<longrightarrow> distinct (snd (check_resource_conflict s rid st en ex)))"
proof -
  have excl: "(truthy ex \<longrightarrow> Some (event_id a) \<noteq> ex) = (Some (event_id a) \<noteq> ex)"
    if "events s (event_id a) = Some ev" for a ev
    using that assms(2) by (cases ex) (auto simp: truthy_def)
  have "fst (check_resource_conflict s rid st en ex)
          = (\<forall>a\<in>set (allocations s). conflict_row s rid st en ex a = None)"
    using assms(1)
    by (simp add: check_resource_conflict_available conflict_query_def map_filter_empty_conv)
  also have "\<dots> = (\<forall>a\<in>set (allocations s). \<forall>ev.
                resource_id a = rid \<and> Some (event_id a) \<noteq> ex
                \<and> events s (event_id a) = Some ev
                \<longrightarrow> \<not> overlaps (start_time ev) (end_time ev) st en)"
    using excl by (auto simp: conflict_row_def split: option.splits if_splits)
  finally have avail: "fst (check_resource_conflict s rid st en ex)
           = (\<forall>a\<in>set (allocations s). \<forall>ev.
                resource_id a = rid \<and> Some (event_id a) \<noteq> ex
                \<and> events s (event_id a) = Some ev
                \<longrightarrow> \<not> overlaps (start_time ev) (end_time ev) st en)" .
  have details: "set (snd (check_resource_conflict s rid st en ex))
           = {ConflictDetail (event_id a) (title ev) (start_time ev) (end_time ev) rid | a ev.
                a \<in> set (allocations s) \<and> resource_id a = rid \<and> Some (event_id a) \<noteq> ex
                \<and> events s (event_id a) = Some ev
                \<and> overlaps (start_time ev) (end_time ev) st en}"
    unfolding conflict_details_set [OF assms(1)]
    using excl by blast
  from avail details check_resource_conflict_distinct [OF assms(1)]
  show ?thesis by blast
qed

lemma check_resource_conflict_truthy_exclusion_example:
  "hm 11 0 < hm 13 0
   \<and> fst (check_resource_conflict example_db 1 (hm 11 0) (hm 13 0) (Some 1))
   \<and> \<not> fst (check_resource_conflict example_db 1 (hm 11 0) (hm 13 0) None)
   \<and> ConflictDetail 1 ''A'' (hm 10 0) (hm 12 0) 1
        \<in> set (snd (check_resource_conflict example_db 1 (hm 11 0) (hm 13 0) None))
   \<and> distinct (snd (check_resource_conflict example_db 1 (hm 11 0) (hm 13 0) None))"
proof -
  have h: "hm 11 0 < hm 13 0"
    by (simp add: hm_def)
  have e1: "Some (1::int) = Some 0 \<longrightarrow> events example_db 0 = None"
    and e2: "(None :: int option) = Some 0 \<longrightarrow> events example_db 0 = None"
    by simp_all
  note excl = check_resource_conflict_truthy_exclusion [OF h e1, of 1]
  note plain = check_resource_conflict_truthy_exclusion [OF h e2, of 1]
  have "fst (check_resource_conflict example_db 1 (hm 11 0) (hm 13 0) (Some 1))"
    unfolding conjunct1 [OF excl]
    by (simp add: example_db_def example_events_def)
  moreover have "\<not> fst (check_resource_conflict example_db 1 (hm 11 0) (hm 13 0) None)"
    unfolding conjunct1 [OF plain]
    by (simp add: example_db_def example_events_def mk_event_def hm_def overlaps_def)
  moreover have "ConflictDetail 1 ''A'' (hm 10 0) (hm 12 0) 1
        \<in> set (snd (check_resource_conflict example_db 1 (hm 11 0) (hm 13 0) None))"
    unfolding conjunct1 [OF conjunct2 [OF plain]]
    by (rule CollectI, rule exI [of _ "\<lparr>allocation_id = 1, event_id = 1, resource_id = 1\<rparr>"],
        rule exI [of _ "mk_event ''A'' (hm 10 0) (hm 12 0)"])
       (simp add: example_db_def example_events_def mk_event_def hm_def overlaps_def)
  moreover have "distinct (snd (check_resource_conflict example_db 1 (hm 11 0) (hm 13 0) None))"
    by (rule mp [OF conjunct2 [OF conjunct2 [OF plain]]]) (simp add: example_db_def)
  ultimately show ?thesis
    using h by (intro conjI)
qed


section \<open>Properties of the allocation routes\<close>

lemma existing_allocation_None:
  "(existing_allocation s eid rid = None)
     = (\<forall>a\<in>set (allocations s). \<not> (event_id a = eid \<and> resource_id a = rid))"
  by (auto simp: existing_allocation_def find_None_iff)

lemma add_allocation_fields:
  "events (fst (add_allocation s eid rid)) = events s"
  "resources (fst (add_allocation s eid rid)) = resources s"
  "allocations (fst (add_allocation s eid rid))
     = allocations s @ [\<lparr>allocation_id = next_allocation_id s, event_id = eid, resource_id = rid\<rparr>]"
  "snd (add_allocation s eid rid)
     = \<lparr>allocation_id = next_allocation_id s, event_id = eid, resource_id = rid\<rparr>"
  by (simp_all add: add_allocation_def Let_def)

lemma create_allocation_success:
  "(create_allocation s (Some eid) (Some rid) = (s', Inr a)) =
     (eid \<noteq> 0 \<and> rid \<noteq> 0
      \<and> (\<exists>ev. events s eid = Some ev
            \<and> fst (check_resource_conflict s rid (start_time ev) (end_time ev) None))
      \<and> resources s rid \<noteq> None
      \<and> existing_allocation s eid rid = None
      \<and> s' = fst (add_allocation s eid rid) \<and> a = snd (add_allocation s eid rid))"
  by (auto split: option.splits prod.splits)

text \<open>
  C6. When an allocation for (event, resource) exists, \<^verbatim>\<open>create_allocation\<close> answers
  "already allocated" and leaves the state as it was, whatever the conflict check would
  say: the look-up comes first. After a successful call, the same call again answers
  "already allocated", and the table holds exactly one row for the pair. The ids are
  non-zero keys of an event and of a resource that resolve.
\<close>

theorem create_allocation_already_allocated:
  "(eid \<noteq> 0 \<and> rid \<noteq> 0 \<and> events s eid \<noteq> None \<and> resources s rid \<noteq> None
      \<and> (\<exists>a\<in>set (allocations s). event_id a = eid \<and> resource_id a = rid)
    \<longrightarrow> create_allocation s (Some eid) (Some rid) = (s, Inl AlreadyAllocated))
   \<and> (create_allocation s (Some eid) (Some rid) = (s', Inr new_allocation)
    \<longrightarrow> create_allocation s' (Some eid) (Some rid) = (s', Inl AlreadyAllocated)
        \<and> length (filter (\<lambda>a. event_id a = eid \<and> resource_id a = rid) (allocations s')) = 1)"
proof -
  have dup: "create_allocation t (Some eid) (Some rid) = (t, Inl AlreadyAllocated)"
    if "eid \<noteq> 0" "rid \<noteq> 0" "events t eid \<noteq> None" "resources t rid \<noteq> None"
       "\<exists>a\<in>set (allocations t). event_id a = eid \<and> resource_id a = rid" for t
  proof -
    from that(5) have "existing_allocation t eid rid \<noteq> None"
      by (simp add: existing_allocation_None)
    with that(1-4) show ?thesis
      by (auto split: option.splits)
  qed
  have again: "create_allocation s' (Some eid) (Some rid) = (s', Inl AlreadyAllocated)
        \<and> length (filter (\<lambda>a. event_id a = eid \<and> resource_id a = rid) (allocations s')) = 1"
    if ok: "create_allocation s (Some eid) (Some rid) = (s', Inr new_allocation)"
  proof -
    from ok have ids: "eid \<noteq> 0" "rid \<noteq> 0"
      and ev: "events s eid \<noteq> None" and rs: "resources s rid \<noteq> None"
      and none: "existing_allocation s eid rid = None"
      and s': "s' = fst (add_allocation s eid rid)"
      unfolding create_allocation_success by auto
    from none have "filter (\<lambda>a. event_id a = eid \<and> resource_id a = rid) (allocations s) = []"
      by (simp add: existing_allocation_None filter_empty_conv)
    then have one: "length (filter (\<lambda>a. event_id a = eid \<and> resource_id a = rid) (allocations s')) = 1"
      by (simp add: s' add_allocation_fields)
    have "create_allocation s' (Some eid) (Some rid) = (s', Inl AlreadyAllocated)"
      by (rule dup) (use ids ev rs in \<open>simp_all add: s' add_allocation_fields\<close>)
    with one show ?thesis by (intro conjI)
  qed
  from dup [of s] again show ?thesis by blast
qed

theorem create_allocation_already_allocated_witness:
  "create_allocation example_db (Some 1) (Some 1) = (example_db, Inl AlreadyAllocated)
   \<and> create_allocation example_db (Some 3) (Some 1)
       = (example_db_after, Inr \<lparr>allocation_id = 3, event_id = 3, resource_id = 1\<rparr>)
   \<and> create_allocation example_db_after (Some 3) (Some 1)
       = (example_db_after, Inl AlreadyAllocated)
   \<and> length (filter (\<lambda>a. event_id a = 3 \<and> resource_id a = 1)
               (allocations example_db_after)) = 1"
proof -
  have first: "create_allocation example_db (Some 3) (Some 1)
       = (example_db_after, Inr \<lparr>allocation_id = 3, event_id = 3, resource_id = 1\<rparr>)"
    by (simp add: example_db_after_def example_db_def example_events_def example_resources_def
          mk_event_def hm_def existing_allocation_def check_resource_conflict_def
          conflict_query_def conflict_row_def overlaps_def add_allocation_def
          next_allocation_id_def Let_def)
  have pre: "(1::int) \<noteq> 0 \<and> (1::int) \<noteq> 0 \<and> events example_db 1 \<noteq> None
      \<and> resources example_db 1 \<noteq> None
      \<and> (\<exists>a\<in>set (allocations example_db). event_id a = 1 \<and> resource_id a = 1)"
    by (simp add: example_db_def example_events_def example_resources_def)
  from mp [OF conjunct1 [OF create_allocation_already_allocated [of 1 1 example_db]] pre]
       mp [OF conjunct2 [OF create_allocation_already_allocated] first] first
  show ?thesis by blast
qed

lemma fold_update_map_of:
  "map_of (fold (\<lambda>k res. AList.update k (f k) res) ks acc) r
     = (if r \<in> set ks then Some (f r) else map_of acc r)"
  by (induction ks arbitrary: acc) (auto simp: update_conv')

lemma fold_update_distinct:
  "distinct (map fst acc) \<Longrightarrow>
   distinct (map fst (fold (\<lambda>k res. AList.update k (f k) res) ks acc))"
  by (induction ks arbitrary: acc) (auto simp: distinct_update)

lemma check_multiple_map_of:
  "map_of (check_multiple_resources_conflict s rids st en ex) r
     = (if r \<in> set rids then Some (check_resource_conflict s r st en ex) else None)"
  by (simp add: check_multiple_resources_conflict_def fold_update_map_of)

lemma check_multiple_distinct:
  "distinct (map fst (check_multiple_resources_conflict s rids st en ex))"
  by (simp add: check_multiple_resources_conflict_def fold_update_distinct)

lemma fold_found_map_of:
  "distinct (map fst xs) \<Longrightarrow>
   map_of (fold (\<lambda>(res_id, is_available, conflicts) found.
                   if \<not> is_available then AList.update res_id conflicts found else found)
                xs acc) k
     = (case map_of xs k of
          Some (is_available, conflicts) \<Rightarrow>
            if \<not> is_available then Some conflicts else map_of acc k
        | None \<Rightarrow> map_of acc k)"
proof (induction xs arbitrary: acc)
  case Nil
  then show ?case by simp
next
  case (Cons x xs)
  obtain r av cs where x: "x = (r, av, cs)"
    by (cases x) auto
  from Cons.prems have notin: "map_of xs r = None" and d: "distinct (map fst xs)"
    by (auto simp: x map_of_eq_None_iff)
  show ?case
    using notin by (auto simp: x Cons.IH [OF d] update_conv' split: option.splits)
qed

lemma fold_found_distinct:
  "distinct (map fst acc) \<Longrightarrow>
   distinct (map fst (fold (\<lambda>(res_id, is_available, conflicts) found.
                   if \<not> is_available then AList.update res_id conflicts found else found)
                xs acc))"
  by (induction xs arbitrary: acc) (auto simp: distinct_update)

lemma conflicts_found_map_of:
  "map_of (conflicts_found_of (check_multiple_resources_conflict s rids st en ex)) r
     = (if r \<in> set rids \<and> \<not> fst (check_resource_conflict s r st en ex)
        then Some (snd (check_resource_conflict s r st en ex)) else None)"
  unfolding conflicts_found_of_def
  by (simp add: fold_found_map_of [OF check_multiple_distinct] check_multiple_map_of
        split: prod.splits)

lemma conflicts_found_distinct:
  "distinct (map fst (conflicts_found_of xs))"
  unfolding conflicts_found_of_def by (rule fold_found_distinct) simp

lemma conflicts_found_empty:
  "(conflicts_found_of (check_multiple_resources_conflict s rids st en ex) = [])
     = (\<forall>r\<in>set rids. fst (check_resource_conflict s r st en ex))"
proof
  assume e: "conflicts_found_of (check_multiple_resources_conflict s rids st en ex) = []"
  show "\<forall>r\<in>set rids. fst (check_resource_conflict s r st en ex)"
  proof
    fix r assume "r \<in> set rids"
    with conflicts_found_map_of [of s rids st en ex r] e
    show "fst (check_resource_conflict s r st en ex)"
      by (simp split: if_splits)
  qed
next
  assume a: "\<forall>r\<in>set rids. fst (check_resource_conflict s r st en ex)"
  have "map_of (conflicts_found_of (check_multiple_resources_conflict s rids st en ex)) r = None"
    for r
    using a by (simp add: conflicts_found_map_of)
  then have "fst ` set (conflicts_found_of (check_multiple_resources_conflict s rids st en ex)) = {}"
    by (metis map_of_eq_None_iff all_not_in_conv)
  then show "conflicts_found_of (check_multiple_resources_conflict s rids st en ex) = []"
    by simp
qed

lemma batch_conflict_result:
  assumes "eid \<noteq> 0" and "events s eid = Some ev"
    and "\<exists>r\<in>set rids. \<not> fst (check_resource_conflict s r (start_time ev) (end_time ev) None)"
  shows "\<exists>found.
           create_batch_allocations s (Some eid) (Some rids)
             = (s, Inl (BatchConflictDetected found))
         \<and> distinct (map fst found)
         \<and> (\<forall>r. map_of found r
                  = (if r \<in> set rids
                        \<and> \<not> fst (check_resource_conflict s r (start_time ev) (end_time ev) None)
                     then Some (snd (check_resource_conflict s r
                                       (start_time ev) (end_time ev) None))
                     else None))"
proof -
  let ?found = "conflicts_found_of
                  (check_multiple_resources_conflict s rids (start_time ev) (end_time ev) None)"
  from assms(3) have ne: "?found \<noteq> []" and rids: "rids \<noteq> []"
    by (auto simp: conflicts_found_empty)
  have "create_batch_allocations s (Some eid) (Some rids)
          = (s, Inl (BatchConflictDetected ?found))"
    using assms(1,2) ne rids by (simp add: Let_def)
  moreover have "distinct (map fst ?found)"
    by (rule conflicts_found_distinct)
  moreover have "\<forall>r. map_of ?found r
                  = (if r \<in> set rids
                        \<and> \<not> fst (check_resource_conflict s r (start_time ev) (end_time ev) None)
                     then Some (snd (check_resource_conflict s r
                                       (start_time ev) (end_time ev) None))
                     else None)"
    by (simp add: conflicts_found_map_of)
  ultimately show ?thesis by blast
qed

text \<open>
  C2. When the event resolves and some resource of the request is reported unavailable,
  \<^verbatim>\<open>create_batch_allocations\<close> fails with "One or more resources have conflicts"; the
  dictionary it carries has exactly the unavailable resource ids of the request as keys,
  each with the conflict list of its check, and the state is returned unchanged, so no
  row is added for any resource of the batch.
\<close>

theorem create_batch_allocations_atomic:
  assumes "eid \<noteq> 0" and "events s eid = Some ev"
    and "\<exists>r\<in>set rids. \<not> fst (check_resource_conflict s r (start_time ev) (end_time ev) None)"
  shows "\<exists>found.
           create_batch_allocations s (Some eid) (Some rids)
             = (s, Inl (BatchConflictDetected found))
         \<and> distinct (map fst found)
         \<and> (\<forall>r. map_of found r
                  = (if r \<in> set rids
                        \<and> \<not> fst (check_resource_conflict s r (start_time ev) (end_time ev) None)
                     then Some (snd (check_resource_conflict s r
                                       (start_time ev) (end_time ev) None))
                     else None))"
  using assms by (rule batch_conflict_result)

theorem create_batch_allocations_atomic_witness:
  "(4::int) \<noteq> 0
   \<and> events example_db 4 = Some (mk_event ''D'' (hm 9 0) (hm 9 30))
   \<and> fst (check_resource_conflict example_db 1 (hm 9 0) (hm 9 30) None)
   \<and> \<not> fst (check_resource_conflict example_db 2 (hm 9 0) (hm 9 30) None)
   \<and> (\<exists>found.
         create_batch_allocations example_db (Some 4) (Some [1, 2])
           = (example_db, Inl (BatchConflictDetected found))
       \<and> map_of found 1 = None
       \<and> map_of found 2 = Some [ConflictDetail 5 ''E'' (hm 8 0) (hm 9 15) 2])"
proof -
  let ?ev = "mk_event ''D'' (hm 9 0) (hm 9 30)"
  have t: "start_time ?ev = hm 9 0" "end_time ?ev = hm 9 30"
    by (simp_all add: mk_event_def)
  have h1: "(4::int) \<noteq> 0" by simp
  have h2: "events example_db 4 = Some ?ev"
    by (simp add: example_db_def example_events_def)
  have c1: "check_resource_conflict example_db 1 (hm 9 0) (hm 9 30) None = (True, [])"
    by (simp add: example_db_def example_events_def mk_event_def hm_def
          check_resource_conflict_def conflict_query_def conflict_row_def overlaps_def)
  have c2: "check_resource_conflict example_db 2 (hm 9 0) (hm 9 30) None
              = (False, [ConflictDetail 5 ''E'' (hm 8 0) (hm 9 15) 2])"
    by (simp add: example_db_def example_events_def mk_event_def hm_def
          check_resource_conflict_def conflict_query_def conflict_row_def overlaps_def
          conflict_details_def truthy_def)
  have h3: "\<exists>r\<in>set [1, 2]. \<not> fst (check_resource_conflict example_db r
                                      (start_time ?ev) (end_time ?ev) None)"
    by (simp add: t c1 c2)
  from create_batch_allocations_atomic [OF h1 h2 h3]
  obtain found where
    res: "create_batch_allocations example_db (Some 4) (Some [1, 2])
            = (example_db, Inl (BatchConflictDetected found))"
    and m: "\<And>r. map_of found r
                  = (if r \<in> set [1, 2]
                        \<and> \<not> fst (check_resource_conflict example_db r (start_time ?ev) (end_time ?ev) None)
                     then Some (snd (check_resource_conflict example_db r
                                       (start_time ?ev) (end_time ?ev) None))
                     else None)"
    by blast
  have "map_of found 1 = None" "map_of found 2 = Some [ConflictDetail 5 ''E'' (hm 8 0) (hm 9 15) 2]"
    by (simp_all add: m t c1 c2)
  with res h1 h2 c1 c2 show ?thesis by auto
qed

section \<open>The booking invariant\<close>

lemma available_no_other_overlap:
  assumes "fst (check_resource_conflict s rid st en None)"
  shows "no_other_overlap s eid rid st en"
proof -
  from assms have lt: "st < en"
    by (auto simp: check_resource_conflict_def split: if_splits)
  with assms have "\<forall>a\<in>set (allocations s). conflict_row s rid st en None a = None"
    by (simp add: check_resource_conflict_available conflict_query_def map_filter_empty_conv)
  then show ?thesis
    unfolding no_other_overlap_def
    by (auto simp: conflict_row_def truthy_def split: option.splits if_splits)
qed

lemma add_allocation_no_double_booking:
  assumes inv: "no_double_booking s" and ev: "events s eid = Some ev"
    and free: "no_other_overlap s eid rid (start_time ev) (end_time ev)"
  shows "no_double_booking (fst (add_allocation s eid rid))"
proof -
  let ?new = "\<lparr>allocation_id = next_allocation_id s, event_id = eid, resource_id = rid\<rparr>"
  have old_new: "\<not> overlaps (start_time e) (end_time e) (start_time ev) (end_time ev)
               \<and> \<not> overlaps (start_time ev) (end_time ev) (start_time e) (end_time e)"
    if "a \<in> set (allocations s)" "resource_id a = rid" "event_id a \<noteq> eid"
       "events s (event_id a) = Some e" for a e
    using free that unfolding no_other_overlap_def
    by (fastforce simp: overlaps_def)
  show ?thesis
    unfolding no_double_booking_def add_allocation_fields
  proof (intro ballI impI)
    fix a1 a2
    assume a1: "a1 \<in> set (allocations s @ [?new])" and a2: "a2 \<in> set (allocations s @ [?new])"
      and c: "resource_id a1 = resource_id a2 \<and> event_id a1 \<noteq> event_id a2"
    consider (oo) "a1 \<in> set (allocations s)" "a2 \<in> set (allocations s)"
      | (on) "a1 \<in> set (allocations s)" "a2 = ?new"
      | (no) "a1 = ?new" "a2 \<in> set (allocations s)"
      | (nn) "a1 = ?new" "a2 = ?new"
      using a1 a2 by auto
    then show "case (events s (event_id a1), events s (event_id a2)) of
             (Some e1, Some e2) \<Rightarrow>
               \<not> overlaps (start_time e1) (end_time e1) (start_time e2) (end_time e2)
           | _ \<Rightarrow> True"
    proof cases
      case oo
      with inv c show ?thesis
        unfolding no_double_booking_def by blast
    next
      case on
      with c old_new [of a1] ev show ?thesis
        by (auto split: option.splits)
    next
      case no
      with c old_new [of a2] ev show ?thesis
        by (auto split: option.splits)
    next
      case nn
      with c show ?thesis by simp
    qed
  qed
qed

lemma add_allocation_no_other_overlap:
  "no_other_overlap s eid r st en \<Longrightarrow>
   no_other_overlap (fst (add_allocation s eid rid)) eid r st en"
  by (auto simp: no_other_overlap_def add_allocation_fields)

lemma allocate_step_events:
  "events (fst (allocate_step eid rid (s, acc))) = events s"
  by (simp add: allocate_step_def add_allocation_fields split: option.splits)

lemma allocate_step_preserves:
  assumes "no_double_booking s" and "events s eid = Some ev"
    and "no_other_overlap s eid rid (start_time ev) (end_time ev)"
  shows "no_double_booking (fst (allocate_step eid rid (s, acc)))"
  using assms
  by (simp add: allocate_step_def add_allocation_no_double_booking split: option.splits)

lemma allocate_step_no_other_overlap:
  "no_other_overlap s eid r st en \<Longrightarrow>
   no_other_overlap (fst (allocate_step eid rid (s, acc))) eid r st en"
  by (simp add: allocate_step_def add_allocation_no_other_overlap split: option.splits)

lemma allocate_loop_preserves:
  assumes "no_double_booking s" and "events s eid = Some ev"
    and "\<forall>r\<in>set rids. no_other_overlap s eid r (start_time ev) (end_time ev)"
  shows "no_double_booking (fst (fold (allocate_step eid) rids (s, acc)))"
  using assms
proof (induction rids arbitrary: s acc)
  case Nil
  then show ?case by simp
next
  case (Cons r rids)
  obtain s1 acc1 where step: "allocate_step eid r (s, acc) = (s1, acc1)"
    by (cases "allocate_step eid r (s, acc)")
  then have s1: "s1 = fst (allocate_step eid r (s, acc))"
    by simp
  have "no_double_booking s1"
    unfolding s1 using Cons.prems by (intro allocate_step_preserves) auto
  moreover have "events s1 eid = Some ev"
    unfolding s1 using Cons.prems(2) by (simp add: allocate_step_events)
  moreover have "\<forall>r'\<in>set rids. no_other_overlap s1 eid r' (start_time ev) (end_time ev)"
    unfolding s1 using Cons.prems(3) by (simp add: allocate_step_no_other_overlap)
  ultimately have "no_double_booking (fst (fold (allocate_step eid) rids (s1, acc1)))"
    by (rule Cons.IH)
  then show ?case
    by (simp add: step)
qed

lemma create_allocation_preserves:
  assumes "no_double_booking s" and "create_allocation s e r = (s', Inr a)"
  shows "no_double_booking s'"
proof -
  from assms(2) obtain eid rid where er: "e = Some eid" "r = Some rid"
    by (cases e; cases r) auto
  from assms(2) obtain ev where ev: "events s eid = Some ev"
    and av: "fst (check_resource_conflict s rid (start_time ev) (end_time ev) None)"
    and s': "s' = fst (add_allocation s eid rid)"
    unfolding er create_allocation_success by blast
  show ?thesis
    unfolding s'
    using assms(1) ev available_no_other_overlap [OF av]
    by (rule add_allocation_no_double_booking)
qed

lemma create_batch_allocations_preserves:
  assumes "no_double_booking s" and "create_batch_allocations s e rs = (s', Inr ids)"
  shows "no_double_booking s'"
proof -
  from assms(2) obtain eid rids where er: "e = Some eid" "rs = Some rids"
    by (cases e; cases rs) auto
  from assms(2) obtain ev where ev: "events s eid = Some ev"
    by (auto simp: er split: if_splits option.splits)
  let ?st = "start_time ev" and ?en = "end_time ev"
  from assms(2) ev
  have none: "conflicts_found_of (check_multiple_resources_conflict s rids ?st ?en None) = []"
    and s': "s' = fst (fold (allocate_step eid) rids (s, []))"
    by (auto simp: er Let_def split: if_splits prod.splits)
  from none have "\<forall>r\<in>set rids. fst (check_resource_conflict s r ?st ?en None)"
    by (simp add: conflicts_found_empty)
  then have "\<forall>r\<in>set rids. no_other_overlap s eid r ?st ?en"
    by (blast intro: available_no_other_overlap)
  with assms(1) ev show ?thesis
    unfolding s' by (rule allocate_loop_preserves)
qed

lemma run_call_preserves:
  assumes "no_double_booking s" and "run_call s c = Some s'"
  shows "no_double_booking s'"
proof (cases c)
  case (Allocate e r)
  with assms(2) obtain a where "create_allocation s e r = (s', Inr a)"
    by (auto split: prod.splits sum.splits)
  with assms(1) show ?thesis
    by (rule create_allocation_preserves)
next
  case (AllocateBatch e rs)
  with assms(2) obtain ids where "create_batch_allocations s e rs = (s', Inr ids)"
    by (auto split: prod.splits sum.splits)
  with assms(1) show ?thesis
    by (rule create_batch_allocations_preserves)
qed

text \<open>
  C1. From a state without double booking, every sequence of \<^verbatim>\<open>create_allocation\<close> and
  \<^verbatim>\<open>create_batch_allocations\<close> calls that all succeed ends in a state without double
  booking: for every resource, the events that hold an allocation to it have pairwise
  non-overlapping time ranges.
\<close>

theorem no_double_booking_preserved:
  assumes "no_double_booking s" and "run_calls s calls = Some s'"
  shows "no_double_booking s'"
  using assms
proof (induction calls arbitrary: s)
  case Nil
  then show ?case by simp
next
  case (Cons c calls)
  from Cons.prems(2) obtain s1 where c: "run_call s c = Some s1"
    and rest: "run_calls s1 calls = Some s'"
    by (auto split: option.splits)
  from Cons.prems(1) c have "no_double_booking s1"
    by (rule run_call_preserves)
  then show ?case
    using rest by (rule Cons.IH)
qed

theorem no_double_booking_preserved_witness:
  "no_double_booking example_db
   \<and> run_calls example_db [Allocate (Some 3) (Some 1), AllocateBatch (Some 2) (Some [2])]
       = Some example_db_final
   \<and> no_double_booking example_db_final"
proof -
  have inv: "no_double_booking example_db"
    by (simp add: no_double_booking_def example_db_def example_events_def mk_event_def
          hm_def overlaps_def)
  have first: "create_allocation example_db (Some 3) (Some 1)
       = (example_db_after, Inr \<lparr>allocation_id = 3, event_id = 3, resource_id = 1\<rparr>)"
    by (simp add: example_db_after_def example_db_def example_events_def example_resources_def
          mk_event_def hm_def existing_allocation_def check_resource_conflict_def
          conflict_query_def conflict_row_def overlaps_def add_allocation_def
          next_allocation_id_def Let_def)
  have second: "create_batch_allocations example_db_after (Some 2) (Some [2])
       = (example_db_final, Inr [2])"
    by (simp add: example_db_final_def example_db_after_def example_db_def example_events_def
          example_resources_def mk_event_def hm_def existing_allocation_def
          check_resource_conflict_def check_multiple_resources_conflict_def
          conflicts_found_of_def allocate_step_def
          conflict_query_def conflict_row_def overlaps_def add_allocation_def
          next_allocation_id_def Let_def)
  have run: "run_calls example_db [Allocate (Some 3) (Some 1), AllocateBatch (Some 2) (Some [2])]
       = Some example_db_final"
    by (simp add: first second del: create_allocation.simps create_batch_allocations.simps)
  from no_double_booking_preserved [OF inv run] inv run
  show ?thesis by (intro conjI)
qed

section \<open>Re-submitting a batch\<close>

text \<open>
  The batch handler checks every resource with \<^verbatim>\<open>exclude_event_id=None\<close>. An
  allocation that the event itself already holds on a requested resource is therefore
  found by the check: for a proper range the event overlaps itself, and for an improper
  one the check fails outright. The batch then fails, and the loop's test for an existing
  allocation is reached only for an id repeated within the request.
\<close>

lemma batch_own_allocation_conflict:
  assumes "eid \<noteq> 0" and "events s eid = Some ev"
    and "a \<in> set (allocations s)" and "event_id a = eid" and "resource_id a \<in> set rids"
  shows "\<exists>found cs.
           create_batch_allocations s (Some eid) (Some rids)
             = (s, Inl (BatchConflictDetected found))
         \<and> map_of found (resource_id a) = Some cs
         \<and> (start_time ev < end_time ev \<longrightarrow>
              ConflictDetail eid (title ev) (start_time ev) (end_time ev) (resource_id a)
                \<in> set cs)"
proof -
  let ?st = "start_time ev" and ?en = "end_time ev" and ?r = "resource_id a"
  let ?c = "check_resource_conflict s ?r ?st ?en None"
  have mem: "ConflictDetail eid (title ev) ?st ?en ?r \<in> set (snd ?c)" if lt: "?st < ?en"
    unfolding conflict_details_set [OF lt]
    using assms(2,3,4) lt by (auto simp: overlaps_def truthy_def)
  have unavailable: "\<not> fst ?c"
  proof (cases "?st < ?en")
    case True
    from mem [OF True] have "snd ?c \<noteq> []" by auto
    then show ?thesis
      using True by (auto simp: check_resource_conflict_def Let_def split: if_splits)
  next
    case False
    then show ?thesis by (simp add: check_resource_conflict_def)
  qed
  with assms(5) have "\<exists>r\<in>set rids. \<not> fst (check_resource_conflict s r ?st ?en None)"
    by blast
  from batch_conflict_result [OF assms(1,2) this]
  obtain found where res: "create_batch_allocations s (Some eid) (Some rids)
             = (s, Inl (BatchConflictDetected found))"
    and m: "\<And>r. map_of found r
                  = (if r \<in> set rids \<and> \<not> fst (check_resource_conflict s r ?st ?en None)
                     then Some (snd (check_resource_conflict s r ?st ?en None)) else None)"
    by blast
  have "map_of found ?r = Some (snd ?c)"
    using assms(5) unavailable by (simp add: m)
  with res mem show ?thesis by blast
qed

text \<open>
  C3. The claim: a batch for event E that names a resource already allocated to E, and no
  resource taken by another event, succeeds, skips the allocated id and returns the newly
  allocated ids. On the example database event A (key 1) holds the room (resource 1) and
  the projector (resource 2) is free from 10:00 to 12:00; the batch for A with resources 1
  and 2 fails with A's own record as the conflict on resource 1, and adds no row.
\<close>

theorem create_batch_allocations_resubmission:
  "create_batch_allocations example_db (Some 1) (Some [1, 2])
     = (example_db,
        Inl (BatchConflictDetected [(1, [ConflictDetail 1 ''A'' (hm 10 0) (hm 12 0) 1])]))"
  by (simp add: example_db_def example_events_def
          example_resources_def mk_event_def hm_def existing_allocation_def
          check_resource_conflict_def check_multiple_resources_conflict_def
          conflicts_found_of_def allocate_step_def conflict_details_def truthy_def
          conflict_query_def conflict_row_def overlaps_def add_allocation_def
          next_allocation_id_def Let_def)

end
